theory Spec2Isabelle
  imports Complex_Main "HOL-Library.AList"
begin

section \<open>JavaScript strings and numbers\<close>

text \<open>
  A JavaScript string is modelled as a \<^typ>\<open>string\<close>: one \<^typ>\<open>char\<close> per UTF-16 code
  unit, restricted to the code units below 256 (Latin-1). Finite JavaScript numbers
  are modelled as exact rationals; the one place of the analyser where IEEE-754
  arithmetic leaves the finite numbers (the quotient \<open>0 / 0\<close>) is modelled by the
  value \<open>NaN\<close> of \<open>jsnum\<close>.
\<close>

datatype jsnum = NaN | Num rat

text \<open>\<open>x > c\<close> for a possibly-NaN \<open>x\<close>: every comparison with NaN is false.\<close>

fun js_gt :: "jsnum \<Rightarrow> rat \<Rightarrow> bool" where
  "js_gt NaN c = False"
| "js_gt (Num x) c = (x > c)"

text \<open>\<open>String.prototype.toLowerCase\<close> on code units below 256.\<close>

definition lower_char :: "char \<Rightarrow> char" where
  "lower_char c =
     (let n = (of_char c :: nat)
      in if (65 \<le> n \<and> n \<le> 90) \<or> (192 \<le> n \<and> n \<le> 222 \<and> n \<noteq> 215)
         then char_of (n + 32) else c)"

definition toLowerCase :: "string \<Rightarrow> string" where
  "toLowerCase s = map lower_char s"

text \<open>The class \<open>\s\<close> of regular expressions, which is also what \<open>trim\<close> strips.\<close>

definition isSpace :: "char \<Rightarrow> bool" where
  "isSpace c = ((of_char c :: nat) \<in> {9, 10, 11, 12, 13, 32, 160})"

text \<open>The class \<open>\w\<close>: ASCII letters, digits and the underscore.\<close>

definition isWordChar :: "char \<Rightarrow> bool" where
  "isWordChar c =
     (let n = (of_char c :: nat)
      in (48 \<le> n \<and> n \<le> 57) \<or> (65 \<le> n \<and> n \<le> 90) \<or> n = 95 \<or> (97 \<le> n \<and> n \<le> 122))"

text \<open>The class \<open>[.!?]\<close>.\<close>

definition isTerminator :: "char \<Rightarrow> bool" where
  "isTerminator c = (c = CHR ''.'' \<or> c = CHR ''!'' \<or> c = CHR ''?'')"

fun startsWith :: "string \<Rightarrow> string \<Rightarrow> bool" where
  "startsWith s [] = True"
| "startsWith [] (k # ks) = False"
| "startsWith (c # cs) (k # ks) = (c = k \<and> startsWith cs ks)"

text \<open>\<open>includes\<close> of strings, \<open>str_includes s k\<close>: \<open>k\<close> occurs in \<open>s\<close> as a contiguous substring.\<close>

fun str_includes :: "string \<Rightarrow> string \<Rightarrow> bool" where
  "str_includes [] k = (k = [])"
| "str_includes (c # cs) k = (startsWith (c # cs) k \<or> str_includes cs k)"

definition trim :: "string \<Rightarrow> string" where
  "trim s = rev (dropWhile isSpace (rev (dropWhile isSpace s)))"

text \<open>
  \<open>s.match(/\b(\w+)\b/g) || []\<close>: the maximal runs of word characters, left to right.
  The first argument is the run being read, reversed.
\<close>

fun matchWords :: "string \<Rightarrow> string \<Rightarrow> string list" where
  "matchWords cur [] = (if cur = [] then [] else [rev cur])"
| "matchWords cur (c # cs) =
     (if isWordChar c then matchWords (c # cur) cs
      else (if cur = [] then [] else [rev cur]) @ matchWords [] cs)"

text \<open>
  \<open>s.split(/C+/)\<close> for a character class \<open>C\<close>: the pieces between the maximal runs
  of separator characters, empty pieces at both ends included, so that the result
  always has at least one element. The second argument is the piece being read,
  reversed.
\<close>

function splitRuns :: "(char \<Rightarrow> bool) \<Rightarrow> string \<Rightarrow> string \<Rightarrow> string list" where
  "splitRuns sep cur [] = [rev cur]"
| "splitRuns sep cur (c # cs) =
     (if sep c then rev cur # splitRuns sep [] (dropWhile sep cs)
      else splitRuns sep (c # cur) cs)"
  by pat_completeness auto
termination
  by (relation "measure (\<lambda>(sep, cur, s). length s)")
     (auto simp: length_dropWhile_le less_Suc_eq_le)

section \<open>The lexical analyser (nlpUtils)\<close>

datatype SentimentLabel = very_negative | negative | neutral | positive | very_positive

record SentimentAnalysis =
  score :: rat
  magnitude :: jsnum
  label :: SentimentLabel

text \<open>
  The fields \<open>entities\<close> and \<open>keyPhrases\<close> of the source's result are left out: they are
  computed by \<open>extractEntities\<close> and \<open>extractKeyPhrases\<close> (the latter from
  \<open>Math.random\<close>), and no function modelled here reads them.
\<close>

record NLPAnalysisResult =
  sentiment :: SentimentAnalysis
  tokenCount :: nat
  complexity :: rat
  topics :: "string list"
  emotions :: "(string \<times> rat) list"

definition positiveWords :: "string list" where
  "positiveWords =
    [''good'', ''great'', ''happy'', ''positive'', ''excellent'', ''wonderful'', ''joy'',
     ''love'', ''hope'', ''excited'', ''grateful'', ''thankful'', ''appreciate'',
     ''better'', ''calm'', ''peaceful'', ''relaxed'', ''confident'', ''proud'']"

definition negativeWords :: "string list" where
  "negativeWords =
    [''bad'', ''sad'', ''angry'', ''negative'', ''terrible'', ''horrible'', ''awful'',
     ''hate'', ''fear'', ''worried'', ''anxious'', ''depressed'', ''stressed'',
     ''worse'', ''upset'', ''frustrated'', ''annoyed'', ''disappointed'', ''hurt'']"

definition intensifiers :: "string list" where
  "intensifiers =
    [''very'', ''extremely'', ''incredibly'', ''really'', ''so'', ''absolutely'',
     ''completely'', ''totally'', ''utterly'', ''thoroughly'']"

definition sentimentLabel :: "rat \<Rightarrow> SentimentLabel" where
  "sentimentLabel s =
     (if s \<le> - (3 / 5) then very_negative
      else if s \<le> - (1 / 5) then negative
      else if s \<ge> 3 / 5 then very_positive
      else if s \<ge> 1 / 5 then positive
      else neutral)"

text \<open>
  \<open>analyzeSentiment\<close>. The magnitude is
  \<open>(totalSentimentWords / words.length) * (1 + intensifierCount / words.length)\<close>;
  with no words all three counts are 0, both quotients are \<open>0 / 0\<close>, and the
  product is NaN.
\<close>

definition analyzeSentiment :: "string \<Rightarrow> SentimentAnalysis" where
  "analyzeSentiment text =
     (let ws = matchWords [] (toLowerCase text);
          positiveCount = length (filter (\<lambda>w. w \<in> set positiveWords) ws);
          negativeCount = length (filter (\<lambda>w. w \<in> set negativeWords) ws);
          intensifierCount = length (filter (\<lambda>w. w \<in> set intensifiers) ws);
          totalSentimentWords = positiveCount + negativeCount;
          sc = (if totalSentimentWords = 0 then 0
                else (of_nat positiveCount - of_nat negativeCount) / of_nat totalSentimentWords);
          mag = (if length ws = 0 then NaN
                 else Num ((of_nat totalSentimentWords / of_nat (length ws))
                           * (1 + of_nat intensifierCount / of_nat (length ws))))
      in \<lparr> score = sc, magnitude = mag, label = sentimentLabel sc \<rparr>)"

definition emotionWords :: "(string \<times> string list) list" where
  "emotionWords =
    [(''anxiety'', [''anxious'', ''nervous'', ''worry'', ''stress'', ''overwhelm'', ''panic'', ''afraid'', ''uneasy'']),
     (''sadness'', [''sad'', ''depressed'', ''unhappy'', ''miserable'', ''heartbroken'', ''down'', ''blue'', ''grief'']),
     (''anger'', [''angry'', ''mad'', ''furious'', ''irritated'', ''annoyed'', ''frustrated'', ''enraged'', ''hostile'']),
     (''fear'', [''scared'', ''afraid'', ''terrified'', ''frightened'', ''fearful'', ''panicked'', ''alarmed'']),
     (''joy'', [''happy'', ''joyful'', ''excited'', ''delighted'', ''pleased'', ''glad'', ''cheerful'', ''content'']),
     (''surprise'', [''surprised'', ''shocked'', ''amazed'', ''astonished'', ''stunned'', ''unexpected'']),
     (''disgust'', [''disgusted'', ''revolted'', ''repulsed'', ''sickened'', ''appalled'', ''horrified'']),
     (''trust'', [''trust'', ''believe'', ''confident'', ''faith'', ''assured'', ''certain'', ''reliance''])]"

text \<open>
  One category of \<open>detectEmotions\<close>: starting from 0, add 0.2 for every keyword that
  occurs in the lower-cased text, then cap at 1.
\<close>

definition emotionIntensity :: "string \<Rightarrow> string list \<Rightarrow> rat" where
  "emotionIntensity lowerText ws =
     min (foldl (\<lambda>acc w. if str_includes lowerText w then acc + 1 / 5 else acc) 0 ws) 1"

text \<open>
  \<open>detectEmotions\<close> of nlpUtils. The result object is the list of its entries, in the
  order of \<open>Object.entries\<close> (the order the eight keys were created in).
\<close>

definition nlp_detectEmotions :: "string \<Rightarrow> (string \<times> rat) list" where
  "nlp_detectEmotions text =
     (let lowerText = toLowerCase text
      in map (\<lambda>(emotion, ws). (emotion, emotionIntensity lowerText ws)) emotionWords)"

definition topicKeywords :: "(string \<times> string list) list" where
  "topicKeywords =
    [(''work'', [''work'', ''job'', ''career'', ''boss'', ''office'', ''colleague'', ''profession'', ''employment'']),
     (''relationships'', [''relationship'', ''partner'', ''marriage'', ''dating'', ''spouse'', ''boyfriend'', ''girlfriend'']),
     (''family'', [''family'', ''parent'', ''child'', ''mother'', ''father'', ''sister'', ''brother'', ''son'', ''daughter'']),
     (''health'', [''health'', ''illness'', ''disease'', ''doctor'', ''hospital'', ''pain'', ''symptom'', ''diagnosis'']),
     (''mental health'', [''anxiety'', ''depression'', ''therapy'', ''counseling'', ''mental'', ''psychiatrist'', ''psychologist'']),
     (''finance'', [''money'', ''finance'', ''debt'', ''budget'', ''saving'', ''expense'', ''income'', ''investment'']),
     (''education'', [''school'', ''college'', ''university'', ''degree'', ''study'', ''learn'', ''education'', ''student'']),
     (''housing'', [''home'', ''house'', ''apartment'', ''rent'', ''mortgage'', ''roommate'', ''living situation'']),
     (''self-improvement'', [''goal'', ''improvement'', ''growth'', ''development'', ''progress'', ''better'', ''skill'']),
     (''social life'', [''friend'', ''social'', ''party'', ''gathering'', ''community'', ''connection'', ''loneliness''])]"

definition nlp_extractTopics :: "string \<Rightarrow> string list" where
  "nlp_extractTopics text =
     (let lowerText = toLowerCase text
      in map fst (filter (\<lambda>(topic, keywords). list_ex (str_includes lowerText) keywords) topicKeywords))"

text \<open>
  \<open>analyzeText\<close>. \<open>words\<close> is \<open>text.split(/\s+/)\<close>, which is never empty, and the
  sentence count is replaced by 1 when it is 0 (\<open>sentences.length || 1\<close>), so both
  divisions have a non-zero divisor.
\<close>

definition analyzeText :: "string \<Rightarrow> NLPAnalysisResult" where
  "analyzeText text =
     (let ws = splitRuns isSpace [] text;
          avgWordLength = (of_nat (foldl (\<lambda>sum word. sum + length word) 0 ws) :: rat)
                            / of_nat (length ws);
          sentences = filter (\<lambda>s. length (trim s) > 0) (splitRuns isTerminator [] text);
          avgSentenceLength = (of_nat (length ws) :: rat)
                                / of_nat (if length sentences = 0 then 1 else length sentences);
          c = min (((avgWordLength - 3) / 3) * (1 / 2) + ((avgSentenceLength - 5) / 15) * (1 / 2)) 1
      in \<lparr> sentiment = analyzeSentiment text,
           tokenCount = length ws,
           complexity = max 0 c,
           topics = nlp_extractTopics text,
           emotions = nlp_detectEmotions text \<rparr>)"

section \<open>The user profile and its objects\<close>

text \<open>
  A \<open>UserProfile\<close> is an object whose six properties hold references to further
  objects. \<open>updateUserProfile\<close> copies the outer object with a spread
  (\<open>{ ...currentProfile }\<close>) and then assigns to properties of the inner objects,
  so the inner objects are kept in an explicit store: the outer object is a record
  of addresses, and the store maps an address to the inner object of each type.
  The arrays of \<open>learningHistory\<close> are stored with it. A dictionary of numbers
  (\<open>values\<close>, \<open>interests\<close>, \<open>concerns\<close>) is the list of its entries in insertion order.
  The property \<open>values\<close> is the field \<open>profileValues\<close>. Each type of inner object
  has its own address space, so an address is read in the component of the store
  its property's type selects; two properties of one type may hold the same address.
\<close>

type_synonym addr = nat

record PersonalityTraits =
  openness :: rat
  conscientiousness :: rat
  extraversion :: rat
  agreeableness :: rat
  neuroticism :: rat

record CommunicationStyle =
  verbose :: rat
  emotional :: rat
  analytical :: rat
  concrete :: rat
  abstract :: rat

record LearningHistory =
  topicsDiscussed :: "string list"
  insightsGained :: "string list"
  techniquesLearned :: "string list"

record UserProfile =
  personalityTraits :: addr
  profileValues :: addr
  interests :: addr
  concerns :: addr
  communicationStyle :: addr
  learningHistory :: addr

record heap =
  traitsAt :: "addr \<Rightarrow> PersonalityTraits"
  dictAt :: "addr \<Rightarrow> (string \<times> rat) list"
  styleAt :: "addr \<Rightarrow> CommunicationStyle"
  historyAt :: "addr \<Rightarrow> LearningHistory"
  nextFree :: addr

definition emptyHeap :: heap where
  "emptyHeap =
     \<lparr> traitsAt = (\<lambda>a. \<lparr> openness = 0, conscientiousness = 0, extraversion = 0,
                          agreeableness = 0, neuroticism = 0 \<rparr>),
       dictAt = (\<lambda>a. []),
       styleAt = (\<lambda>a. \<lparr> verbose = 0, emotional = 0, analytical = 0, concrete = 0, abstract = 0 \<rparr>),
       historyAt = (\<lambda>a. \<lparr> topicsDiscussed = [], insightsGained = [], techniquesLearned = [] \<rparr>),
       nextFree = 0 \<rparr>"

text \<open>\<open>createInitialUserProfile\<close>: six fresh inner objects and the outer object.\<close>

definition createInitialUserProfile :: "heap \<Rightarrow> heap \<times> UserProfile" where
  "createInitialUserProfile h =
     (let a = nextFree h
      in (h\<lparr> traitsAt := (traitsAt h)(a := \<lparr> openness = 1 / 2, conscientiousness = 1 / 2,
                                             extraversion = 1 / 2, agreeableness = 1 / 2,
                                             neuroticism = 1 / 2 \<rparr>),
             dictAt := (dictAt h)(a := [], a + 1 := [], a + 2 := []),
             styleAt := (styleAt h)(a := \<lparr> verbose = 1 / 2, emotional = 1 / 2, analytical = 1 / 2,
                                           concrete = 1 / 2, abstract = 1 / 2 \<rparr>),
             historyAt := (historyAt h)(a := \<lparr> topicsDiscussed = [], insightsGained = [],
                                               techniquesLearned = [] \<rparr>),
             nextFree := a + 3 \<rparr>,
          \<lparr> personalityTraits = a, profileValues = a, interests = a + 1, concerns = a + 2,
            communicationStyle = a, learningHistory = a \<rparr>))"

text \<open>What a caller holding the profile \<open>p\<close> reads through it in the store \<open>h\<close>.\<close>

record ProfileContents =
  traitsOf :: PersonalityTraits
  valuesOf :: "(string \<times> rat) list"
  interestsOf :: "(string \<times> rat) list"
  concernsOf :: "(string \<times> rat) list"
  styleOf :: CommunicationStyle
  historyOf :: LearningHistory

definition readProfile :: "heap \<Rightarrow> UserProfile \<Rightarrow> ProfileContents" where
  "readProfile h p =
     \<lparr> traitsOf = traitsAt h (personalityTraits p),
       valuesOf = dictAt h (profileValues p),
       interestsOf = dictAt h (interests p),
       concernsOf = dictAt h (concerns p),
       styleOf = styleAt h (communicationStyle p),
       historyOf = historyAt h (learningHistory p) \<rparr>"

section \<open>The profile updater\<close>

definition weightedAverage :: "rat \<Rightarrow> rat \<Rightarrow> rat \<Rightarrow> rat" where
  "weightedAverage currentValue newValue weight = currentValue * (1 - weight) + newValue * weight"

text \<open>Every call of the source leaves the third parameter at its default, 0.3.\<close>

definition weightedAverage3 :: "rat \<Rightarrow> rat \<Rightarrow> rat" where
  "weightedAverage3 currentValue newValue = weightedAverage currentValue newValue (3 / 10)"

text \<open>Assignments to a property of an inner object.\<close>

definition setStyle :: "addr \<Rightarrow> (CommunicationStyle \<Rightarrow> CommunicationStyle) \<Rightarrow> heap \<Rightarrow> heap" where
  "setStyle a f h = h\<lparr> styleAt := (styleAt h)(a := f (styleAt h a)) \<rparr>"

definition setTraits :: "addr \<Rightarrow> (PersonalityTraits \<Rightarrow> PersonalityTraits) \<Rightarrow> heap \<Rightarrow> heap" where
  "setTraits a f h = h\<lparr> traitsAt := (traitsAt h)(a := f (traitsAt h a)) \<rparr>"

text \<open>
  \<open>d[k] = v\<close>: an existing key keeps its place, a new key goes to the end.
\<close>

definition setDict :: "addr \<Rightarrow> string \<Rightarrow> rat \<Rightarrow> heap \<Rightarrow> heap" where
  "setDict a k v h = h\<lparr> dictAt := (dictAt h)(a := AList.update k v (dictAt h a)) \<rparr>"

definition setHistory :: "addr \<Rightarrow> (LearningHistory \<Rightarrow> LearningHistory) \<Rightarrow> heap \<Rightarrow> heap" where
  "setHistory a f h = h\<lparr> historyAt := (historyAt h)(a := f (historyAt h a)) \<rparr>"

text \<open>
  The test \<open>!d[k]\<close> on a dictionary of numbers holds when the key is absent or its
  value is 0; \<open>truthyAt d k\<close> is the value in the other case.
\<close>

definition truthyAt :: "(string \<times> rat) list \<Rightarrow> string \<Rightarrow> rat option" where
  "truthyAt d k = (case map_of d k of None \<Rightarrow> None | Some v \<Rightarrow> if v = 0 then None else Some v)"

text \<open>The three-bucket target of a communication-style axis.\<close>

definition bucket :: "bool \<Rightarrow> bool \<Rightarrow> rat" where
  "bucket high mid = (if high then 4 / 5 else if mid then 1 / 2 else 1 / 5)"

text \<open>The body of the first \<open>topics.forEach\<close>: seed or blend one interest.\<close>

definition updateInterest :: "UserProfile \<Rightarrow> heap \<Rightarrow> string \<Rightarrow> heap" where
  "updateInterest updatedProfile h topic =
     (case truthyAt (dictAt h (interests updatedProfile)) topic of
        None \<Rightarrow> setDict (interests updatedProfile) topic (3 / 5) h
      | Some v \<Rightarrow> setDict (interests updatedProfile) topic (weightedAverage3 v (4 / 5)) h)"

definition concernEmotions :: "string list" where
  "concernEmotions = [''anxiety'', ''sadness'', ''anger'', ''fear'', ''disgust'']"

text \<open>The body of \<open>Object.entries(textAnalysis.emotions).forEach\<close>.\<close>

definition updateConcern :: "UserProfile \<Rightarrow> heap \<Rightarrow> string \<times> rat \<Rightarrow> heap" where
  "updateConcern updatedProfile h entry =
     (let emotion = fst entry; intensity = snd entry
      in if intensity > 1 / 2 \<and> emotion \<in> set concernEmotions
         then (case truthyAt (dictAt h (concerns updatedProfile)) emotion of
                 None \<Rightarrow> setDict (concerns updatedProfile) emotion intensity h
               | Some v \<Rightarrow> setDict (concerns updatedProfile) emotion
                             (weightedAverage3 v intensity) h)
         else h)"

text \<open>The body of the second \<open>topics.forEach\<close>: push a topic not yet discussed.\<close>

definition noteTopic :: "UserProfile \<Rightarrow> heap \<Rightarrow> string \<Rightarrow> heap" where
  "noteTopic updatedProfile h topic =
     (if topic \<notin> set (topicsDiscussed (historyAt h (learningHistory updatedProfile)))
      then setHistory (learningHistory updatedProfile)
             (\<lambda>l. l\<lparr> topicsDiscussed := topicsDiscussed l @ [topic] \<rparr>) h
      else h)"

text \<open>
  \<open>updateUserProfile\<close>. \<open>updatedProfile\<close> is the spread copy of \<open>currentProfile\<close>: a new
  outer object holding the same six references. Each later line is one statement of
  the source, run on the store left by the one before.
\<close>

definition updateUserProfile ::
  "heap \<Rightarrow> UserProfile \<Rightarrow> NLPAnalysisResult \<Rightarrow> string \<Rightarrow> heap \<times> UserProfile" where
  "updateUserProfile h0 currentProfile textAnalysis userText =
     (let updatedProfile = currentProfile;
          h1 = setStyle (communicationStyle updatedProfile)
                 (\<lambda>s. s\<lparr> verbose := weightedAverage3
                            (verbose (styleAt h0 (communicationStyle currentProfile)))
                            (bucket (tokenCount textAnalysis > 100) (tokenCount textAnalysis > 50)) \<rparr>) h0;
          h2 = setStyle (communicationStyle updatedProfile)
                 (\<lambda>s. s\<lparr> emotional := weightedAverage3
                            (emotional (styleAt h1 (communicationStyle currentProfile)))
                            (bucket (js_gt (magnitude (sentiment textAnalysis)) (7 / 10))
                                    (js_gt (magnitude (sentiment textAnalysis)) (3 / 10))) \<rparr>) h1;
          h3 = setStyle (communicationStyle updatedProfile)
                 (\<lambda>s. s\<lparr> analytical := weightedAverage3
                            (analytical (styleAt h2 (communicationStyle currentProfile)))
                            (bucket (complexity textAnalysis > 7 / 10) (complexity textAnalysis > 2 / 5)) \<rparr>) h2;
          h4 = foldl (updateInterest updatedProfile) h3 (topics textAnalysis);
          h5 = foldl (updateConcern updatedProfile) h4 (emotions textAnalysis);
          h6 = (if score (sentiment textAnalysis) > 1 / 2
                then setTraits (personalityTraits updatedProfile)
                       (\<lambda>t. t\<lparr> agreeableness := weightedAverage3 (agreeableness t) (3 / 5) \<rparr>)
                       (setTraits (personalityTraits updatedProfile)
                          (\<lambda>t. t\<lparr> extraversion := weightedAverage3 (extraversion t) (3 / 5) \<rparr>) h5)
                else h5);
          h7 = (if complexity textAnalysis > 3 / 5
                then setTraits (personalityTraits updatedProfile)
                       (\<lambda>t. t\<lparr> openness := weightedAverage3 (openness t) (7 / 10) \<rparr>) h6
                else h6);
          h8 = foldl (noteTopic updatedProfile) h7 (topics textAnalysis)
      in (h8, updatedProfile))"

section \<open>Crisis detection (apiUtils)\<close>

definition crisisKeywords :: "string list" where
  "crisisKeywords =
    [''suicide'', ''kill myself'', ''end my life'', ''want to die'',
     ''harm myself'', ''hurt myself'', ''self-harm'',
     ''no reason to live'', ''better off dead'']"

definition containsCrisisIndicators :: "string \<Rightarrow> bool" where
  "containsCrisisIndicators text =
     (let lowerText = toLowerCase text
      in list_ex (\<lambda>keyword. str_includes lowerText keyword) crisisKeywords)"

section \<open>The session state machine (therapistUtils)\<close>

datatype TherapyApproach = cbt | mindfulness | supportive | solution_focused | existential

datatype EmotionCategory = Anxiety | Depression | Anger | Grief | Joy | Confusion | Neutral

record TherapySessionState =
  dominantEmotions :: "EmotionCategory list"
  recentTopics :: "string list"
  approachUsed :: "TherapyApproach list"
  questionTypes :: "string list"
  sessionDepth :: int
  crisisDetected :: bool
  lastQuestionType :: string
  userInsights :: "string list"
  userProfile :: UserProfile
  lastAnalysis :: "NLPAnalysisResult option"

definition createInitialSessionState :: "heap \<Rightarrow> heap \<times> TherapySessionState" where
  "createInitialSessionState h =
     (let (h', profile) = createInitialUserProfile h
      in (h', \<lparr> dominantEmotions = [Neutral],
                recentTopics = [],
                approachUsed = [supportive],
                questionTypes = [],
                sessionDepth = 0,
                crisisDetected = False,
                lastQuestionType = ''opening'',
                userInsights = [],
                userProfile = profile,
                lastAnalysis = None \<rparr>))"

text \<open>
  \<open>emotions.k > c\<close> on the emotions object of an analysis; a missing key reads
  \<open>undefined\<close>, which compares false.
\<close>

definition emotionAbove :: "(string \<times> rat) list \<Rightarrow> string \<Rightarrow> rat \<Rightarrow> bool" where
  "emotionAbove es k c = (case map_of es k of None \<Rightarrow> False | Some v \<Rightarrow> v > c)"

text \<open>\<open>detectEmotions\<close> of therapistUtils: the reduced emotion categories of a text.\<close>

definition detectEmotions :: "string \<Rightarrow> EmotionCategory list" where
  "detectEmotions text =
     (let es = emotions (analyzeText text);
          lowerText = toLowerCase text;
          result =
            (if emotionAbove es ''anxiety'' (2 / 5) then [Anxiety] else [])
            @ (if emotionAbove es ''sadness'' (2 / 5) then [Depression] else [])
            @ (if emotionAbove es ''anger'' (2 / 5) then [Anger] else [])
            @ (if emotionAbove es ''joy'' (2 / 5) then [Joy] else [])
            @ (if str_includes lowerText ''grief'' \<or> str_includes lowerText ''loss''
                  \<or> str_includes lowerText ''miss'' \<or> str_includes lowerText ''gone''
                  \<or> str_includes lowerText ''died'' \<or> str_includes lowerText ''death''
               then [Grief] else [])
            @ (if emotionAbove es ''surprise'' (2 / 5) \<or> str_includes lowerText ''confus''
                  \<or> str_includes lowerText ''unsure''
               then [Confusion] else [])
      in if length result = 0 then [Neutral] else result)"

definition detectCrisis :: "string \<Rightarrow> bool" where
  "detectCrisis text = containsCrisisIndicators text"

definition extractTopics :: "string \<Rightarrow> string list" where
  "extractTopics text = topics (analyzeText text)"

definition selectApproach :: "EmotionCategory list \<Rightarrow> TherapyApproach list" where
  "selectApproach es =
     (if Anxiety \<in> set es then [cbt, mindfulness]
      else if Depression \<in> set es then [cbt, supportive]
      else if Grief \<in> set es then [supportive, existential]
      else if Confusion \<in> set es then [solution_focused, existential]
      else [supportive, solution_focused])"

text \<open>
  \<open>updateSessionState\<close>: the new state is a spread copy of the current one with
  seven properties reassigned; the profile update runs on the store.
\<close>

definition updateSessionState ::
  "heap \<Rightarrow> TherapySessionState \<Rightarrow> string \<Rightarrow> heap \<times> TherapySessionState" where
  "updateSessionState h currentState userInput =
     (let textAnalysis = analyzeText userInput;
          (h', updatedProfile) =
             updateUserProfile h (userProfile currentState) textAnalysis userInput;
          es = detectEmotions userInput;
          isCrisis = detectCrisis userInput;
          ts = extractTopics userInput
      in (h', currentState
               \<lparr> dominantEmotions := es,
                 crisisDetected := isCrisis,
                 sessionDepth := sessionDepth currentState + 1,
                 userProfile := updatedProfile,
                 lastAnalysis := Some textAnalysis,
                 recentTopics := take 3 (ts @ recentTopics currentState),
                 approachUsed := selectApproach es \<rparr>))"


section \<open>The chat-completion client (llamaApiUtils)\<close>

datatype Role = system | user | assistant

record LlamaMessage =
  role :: Role
  content :: string

text \<open>The values thrown inside \<open>sendLlamaRequest\<close>, and a rejected promise of \<open>fetch\<close>.\<close>

datatype exn =
    ApiKeyNotFound
  | ApiRequestFailed nat string
  | NoResponseFromModel
  | TypeError
  | SyntaxError
  | NetworkError

text \<open>The request handed to \<open>fetch\<close>: the URL, the headers and the JSON body.\<close>

record ChatRequest =
  url :: string
  authorization :: string
  httpReferer :: string
  xTitle :: string
  model :: string
  messages :: "LlamaMessage list"
  temperature :: rat
  max_tokens :: nat

text \<open>
  What \<open>response.json()\<close> gives: a rejection when the body is not JSON, else the
  \<open>choices\<close> property (\<open>None\<close> when absent), each choice being the \<open>content\<close> of its
  \<open>message\<close> (\<open>None\<close> when the choice has no \<open>message\<close>).
\<close>

datatype ParsedBody = NotJson | Json "string option list option"

text \<open>What \<open>fetch\<close> gives: a rejection, or a response with \<open>ok\<close>, \<open>status\<close> and the body.\<close>

datatype FetchOutcome = FetchRejected | HttpResponse bool nat string ParsedBody

text \<open>
  The surroundings of the client: the module constant \<open>LLAMA_API_KEY\<close> (\<open>None\<close> when
  the environment variable is not set), \<open>window.location.hostname\<close>, and the remote
  service behind \<open>fetch\<close>.
\<close>

record env =
  LLAMA_API_KEY :: "string option"
  hostname :: string
  fetch :: "ChatRequest \<Rightarrow> FetchOutcome"

definition API_URL :: string where
  "API_URL = ''https://openrouter.ai/api/v1/chat/completions''"

definition llamaFallback :: string where
  "llamaFallback = ''I apologize, but I encountered an issue processing your request. Please try again.''"

text \<open>
  An optional string is truthy when it is present and not empty; \<open>truthy s\<close> is the
  string in that case.
\<close>

definition truthy :: "string option \<Rightarrow> string option" where
  "truthy s = (case s of None \<Rightarrow> None | Some t \<Rightarrow> if t = [] then None else Some t)"

text \<open>
  The request \<open>sendLlamaRequest\<close> builds once it has the key: the optional system
  message, then the conversation.
\<close>

definition chatRequest :: "env \<Rightarrow> string \<Rightarrow> LlamaMessage list \<Rightarrow> string option \<Rightarrow> ChatRequest" where
  "chatRequest e key msgs systemPrompt =
     (let conversationHistory =
            (case truthy systemPrompt of
               None \<Rightarrow> []
             | Some prompt \<Rightarrow> [\<lparr> role = system, content = prompt \<rparr>])
            @ msgs;
          referer = (if hostname e = ''localhost'' then ''http://localhost:5173''
                     else ''https://'' @ hostname e)
      in \<lparr> url = API_URL,
           authorization = ''Bearer '' @ key,
           httpReferer = referer,
           xTitle = ''AI Therapy Assistant'',
           model = ''meta-llama/llama-3-8b-instruct'',
           messages = conversationHistory,
           temperature = 7 / 10,
           max_tokens = 800 \<rparr>)"

text \<open>
  The \<open>try\<close> block of \<open>sendLlamaRequest\<close>: its result is the value returned or the
  value thrown, together with the requests sent to the remote service.
\<close>

definition sendLlamaRequest_try ::
  "env \<Rightarrow> LlamaMessage list \<Rightarrow> string option \<Rightarrow> (exn + string) \<times> ChatRequest list" where
  "sendLlamaRequest_try e msgs systemPrompt =
     (case truthy (LLAMA_API_KEY e) of
        None \<Rightarrow> (Inl ApiKeyNotFound, [])
      | Some key \<Rightarrow>
        let request = chatRequest e key msgs systemPrompt
        in (case fetch e request of
              FetchRejected \<Rightarrow> Inl NetworkError
            | HttpResponse ok status errorData body \<Rightarrow>
                if \<not> ok then Inl (ApiRequestFailed status errorData)
                else (case body of
                        NotJson \<Rightarrow> Inl SyntaxError
                      | Json None \<Rightarrow> Inl NoResponseFromModel
                      | Json (Some []) \<Rightarrow> Inl NoResponseFromModel
                      | Json (Some (None # rest)) \<Rightarrow> Inl TypeError
                      | Json (Some (Some c # rest)) \<Rightarrow> Inr c),
            [request]))"

text \<open>
  \<open>sendLlamaRequest\<close>: the \<open>catch\<close> clause turns every thrown value into the fallback
  string. The result is \<open>Inl\<close> for a rejected promise and \<open>Inr\<close> for a fulfilled one.
\<close>

definition sendLlamaRequest ::
  "env \<Rightarrow> LlamaMessage list \<Rightarrow> string option \<Rightarrow> (exn + string) \<times> ChatRequest list" where
  "sendLlamaRequest e msgs systemPrompt =
     (case sendLlamaRequest_try e msgs systemPrompt of
        (Inl error, sent) \<Rightarrow> (Inr llamaFallback, sent)
      | (Inr text, sent) \<Rightarrow> (Inr text, sent))"

definition createTherapySystemPrompt :: string where
  "createTherapySystemPrompt =
     ''You are an AI Therapy Assistant designed to provide supportive, empathetic responses.\<newline>''
   @ ''Your goal is to help users explore their thoughts and feelings in a safe space.\<newline>''
   @ ''\<newline>''
   @ ''Guidelines:\<newline>''
   @ ''- Respond with empathy and without judgment\<newline>''
   @ ''- Ask thoughtful follow-up questions to encourage reflection\<newline>''
   @ ''- Provide evidence-based insights when appropriate\<newline>''
   @ ''- Recognize emotional states and respond accordingly\<newline>''
   @ ''- Suggest coping strategies and resources when helpful\<newline>''
   @ ''- Never diagnose medical or psychological conditions\<newline>''
   @ ''- Maintain a warm, supportive tone throughout the conversation\<newline>''
   @ ''- If the user is in crisis, encourage them to seek professional help\<newline>''
   @ ''\<newline>''
   @ ''Remember that your purpose is to support the user's emotional wellbeing through conversation,\<newline>''
   @ ''not to replace professional mental health care.''"

section \<open>The response orchestrator (therapistUtils)\<close>

text \<open>
  A message of the conversation log: its properties \<open>type\<close> and \<open>text\<close> are the
  fields \<open>msgType\<close> and \<open>msgText\<close>; the optional \<open>timestamp\<close> and \<open>analysis\<close> are not
  read by the orchestrator.
\<close>

datatype MessageType = entry | response

record Message =
  msgType :: MessageType
  msgText :: string

definition crisisResponse :: string where
  "crisisResponse =
     ''I'm concerned about what you're sharing. If you're in immediate danger, please call 988 or 911, or text HOME to 741741 to reach the Crisis Text Line. Your safety is the top priority. Would it be helpful to talk about some immediate coping strategies or resources available to you right now?''"

definition listenFallback :: string where
  "listenFallback = ''I'm here to listen and support you. Could you tell me more about how you're feeling?''"

text \<open>\<open>xs.slice(-10)\<close>: the last ten elements, or all of them when there are fewer.\<close>

definition sliceLast10 :: "'a list \<Rightarrow> 'a list" where
  "sliceLast10 xs = drop (length xs - 10) xs"

text \<open>
  The object \<open>generateTherapistResponse\<close> resolves to; its property \<open>response\<close> is the
  field \<open>replyText\<close>.
\<close>

record TherapistReply =
  replyText :: string
  updatedState :: TherapySessionState

text \<open>
  \<open>generateTherapistResponse\<close>. The result is the final store, the object the promise
  resolves to, and the requests sent to the remote service. The \<open>catch\<close> clause of
  the source is the \<open>Inl\<close> branch.
\<close>

definition generateTherapistResponse ::
  "env \<Rightarrow> heap \<Rightarrow> string \<Rightarrow> TherapySessionState \<Rightarrow> Message list
     \<Rightarrow> heap \<times> TherapistReply \<times> ChatRequest list" where
  "generateTherapistResponse e h userInput sessionState conversationHistory =
     (let (h', st) = updateSessionState h sessionState userInput
      in if crisisDetected st
         then (h', \<lparr> replyText = crisisResponse, updatedState = st \<rparr>, [])
         else
           let recentMessages = sliceLast10 conversationHistory;
               llamaMessages =
                 map (\<lambda>msg. \<lparr> role = (if msgType msg = entry then user else assistant),
                               content = msgText msg \<rparr>) recentMessages
                 @ [\<lparr> role = user, content = userInput \<rparr>];
               systemPrompt = createTherapySystemPrompt
           in (case sendLlamaRequest e llamaMessages (Some systemPrompt) of
                 (Inr r, sent) \<Rightarrow> (h', \<lparr> replyText = r, updatedState = st \<rparr>, sent)
               | (Inl error, sent) \<Rightarrow>
                   (h', \<lparr> replyText = listenFallback, updatedState = st \<rparr>, sent)))"

section \<open>The resource selector (therapistUtils)\<close>










definition strategies :: "(EmotionCategory \<times> string list) list" where
  "strategies =
    [(Anxiety, [''Progressive Muscle Relaxation'', ''Worry Time'', ''Grounding Techniques'']),
     (Depression, [''Behavioral Activation'', ''Gratitude Practice'', ''Movement for Mood'']),
     (Anger, [''Timeout Technique'', ''Physical Release'', ''Anger Journaling'']),
     (Grief, [''Memory Box'', ''Grief Journaling'', ''Grief Rituals'']),
     (Neutral, [''Values Reflection'', ''Mindful Moments'', ''Strength Inventory''])]"


text \<open>The entries of \<open>resources\<close>: title, url, and contact when there is one.\<close>

definition resources :: "(string \<times> string \<times> string option) list" where
  "resources =
    [(''Crisis Text Line'', ''https://www.crisistextline.org/'', Some ''Text HOME to 741741''),
     (''National Suicide Prevention Lifeline'', ''https://988lifeline.org/'', Some ''Call or text 988''),
     (''SAMHSA's National Helpline'', ''https://www.samhsa.gov/find-help/national-helpline'',
        Some ''1-800-662-HELP (4357)''),
     (''Psychology Today Therapist Finder'', ''https://www.psychologytoday.com/us/therapists'', None),
     (''MentalHealth.gov'', ''https://www.mentalhealth.gov/'', None),
     (''National Alliance on Mental Illness (NAMI)'', ''https://www.nami.org/'',
        Some ''NAMI Helpline: 1-800-950-NAMI (6264)''),
     (''Headspace'', ''https://www.headspace.com/'', None),
     (''Calm'', ''https://www.calm.com/'', None),
     (''7 Cups'', ''https://www.7cups.com/'', None),
     (''Talkspace'', ''https://www.talkspace.com/'', None)]"




section \<open>Numbers in the unit interval\<close>

definition in_unit :: "rat \<Rightarrow> bool" where
  "in_unit x = (0 \<le> x \<and> x \<le> 1)"

definition traits_in_unit :: "PersonalityTraits \<Rightarrow> bool" where
  "traits_in_unit t =
     (in_unit (openness t) \<and> in_unit (conscientiousness t) \<and> in_unit (extraversion t)
      \<and> in_unit (agreeableness t) \<and> in_unit (neuroticism t))"

definition style_in_unit :: "CommunicationStyle \<Rightarrow> bool" where
  "style_in_unit c =
     (in_unit (verbose c) \<and> in_unit (emotional c) \<and> in_unit (analytical c)
      \<and> in_unit (concrete c) \<and> in_unit (abstract c))"

definition dict_in_unit :: "(string \<times> rat) list \<Rightarrow> bool" where
  "dict_in_unit d = list_all (\<lambda>entry. in_unit (snd entry)) d"

text \<open>
  The numeric fields of the profile \<open>p\<close>, read in the store \<open>h\<close>: the personality
  traits, the communication style, the interests and the concerns.
\<close>

definition profile_in_unit :: "heap \<Rightarrow> UserProfile \<Rightarrow> bool" where
  "profile_in_unit h p =
     (traits_in_unit (traitsAt h (personalityTraits p))
      \<and> style_in_unit (styleAt h (communicationStyle p))
      \<and> dict_in_unit (dictAt h (interests p))
      \<and> dict_in_unit (dictAt h (concerns p)))"

section \<open>Substrings\<close>

lemma startsWith_iff: "startsWith s k = (\<exists>suf. s = k @ suf)"
  by (induction s k rule: startsWith.induct) auto

text \<open>\<open>str_includes\<close> is the substring test: \<open>k\<close> occurs somewhere in \<open>s\<close>.\<close>

lemma str_includes_iff: "str_includes s k = (\<exists>pre suf. s = pre @ k @ suf)"
proof (induction s)
  case Nil
  then show ?case by auto
next
  case (Cons c cs)
  show ?case
  proof
    assume "str_includes (c # cs) k"
    then consider "startsWith (c # cs) k" | "str_includes cs k" by auto
    then show "\<exists>pre suf. c # cs = pre @ k @ suf"
    proof cases
      case 1
      then obtain suf where "c # cs = k @ suf" by (auto simp: startsWith_iff)
      then have "c # cs = [] @ k @ suf" by simp
      then show ?thesis by blast
    next
      case 2
      then obtain pre suf where "cs = pre @ k @ suf" using Cons.IH by auto
      then have "c # cs = (c # pre) @ k @ suf" by simp
      then show ?thesis by blast
    qed
  next
    assume "\<exists>pre suf. c # cs = pre @ k @ suf"
    then obtain pre suf where eq: "c # cs = pre @ k @ suf" by auto
    show "str_includes (c # cs) k"
    proof (cases pre)
      case Nil
      then have "startsWith (c # cs) k" using eq by (auto simp: startsWith_iff)
      then show ?thesis by simp
    next
      case (Cons p ps)
      then have "cs = ps @ k @ suf" using eq by simp
      then have "str_includes cs k" using Cons.IH by blast
      then show ?thesis by simp
    qed
  qed
qed

lemma toLowerCase_append: "toLowerCase (a @ b) = toLowerCase a @ toLowerCase b"
  by (simp add: toLowerCase_def)

section \<open>The session state after a turn\<close>

lemma updateSessionState_crisis:
  "crisisDetected (snd (updateSessionState h s t)) = containsCrisisIndicators t"
  by (simp add: updateSessionState_def detectCrisis_def Let_def split: prod.splits)



section \<open>Crisis turns\<close>

lemma generateTherapistResponse_crisis:
  assumes "crisisDetected (snd (updateSessionState h s userInput))"
  shows "generateTherapistResponse e h userInput s hist =
           (fst (updateSessionState h s userInput),
            \<lparr> replyText = crisisResponse, updatedState = snd (updateSessionState h s userInput) \<rparr>,
            [])"
proof -
  obtain h' st where u: "updateSessionState h s userInput = (h', st)"
    by (cases "updateSessionState h s userInput")
  with assms have "crisisDetected st" by simp
  then show ?thesis using u by (simp add: generateTherapistResponse_def)
qed

lemma containsCrisisIndicators_anywhere:
  assumes "k \<in> set crisisKeywords" and "toLowerCase u = k"
  shows "containsCrisisIndicators (pre @ u @ suf)"
  using assms
  unfolding containsCrisisIndicators_def Let_def list_ex_iff str_includes_iff toLowerCase_append
  by blast

text \<open>
  Claim C1. Whenever the crisis flag is set in the state \<open>updateSessionState\<close> returns
  for the user's text, \<open>generateTherapistResponse\<close> resolves to the fixed safety string
  with that state and sends no request to the remote chat service. The safety string
  contains "988". A crisis keyword is found wherever it occurs in the text and in
  whatever letter case; in particular for "I want to end my life." the detection
  returns true and the reply is the safety string, with no request sent.
\<close>

theorem crisis_reply_bypasses_remote:
  "(crisisDetected (snd (updateSessionState h s userInput)) \<longrightarrow>
      generateTherapistResponse e h userInput s hist =
        (fst (updateSessionState h s userInput),
         \<lparr> replyText = crisisResponse, updatedState = snd (updateSessionState h s userInput) \<rparr>,
         []))
   \<and> str_includes crisisResponse ''988''
   \<and> (k \<in> set crisisKeywords \<and> toLowerCase u = k \<longrightarrow>
        crisisDetected (snd (updateSessionState h s (pre @ u @ suf))))
   \<and> containsCrisisIndicators ''I want to end my life.''
   \<and> replyText (fst (snd (generateTherapistResponse e h ''I want to end my life.'' s hist)))
        = crisisResponse
   \<and> snd (snd (generateTherapistResponse e h ''I want to end my life.'' s hist)) = []"
proof -
  have n988: "str_includes crisisResponse ''988''" by code_simp
  have input: "containsCrisisIndicators ''I want to end my life.''" by code_simp
  then have flagged: "crisisDetected (snd (updateSessionState h s ''I want to end my life.''))"
    by (simp only: updateSessionState_crisis)
  show ?thesis
    using n988 input generateTherapistResponse_crisis [OF flagged, of e hist]
      generateTherapistResponse_crisis [of h s userInput e hist]
      containsCrisisIndicators_anywhere [of k u pre suf]
    by (simp add: updateSessionState_crisis)
qed

theorem crisis_reply_bypasses_remote_witness:
  "crisisDetected (snd (updateSessionState (fst (createInitialSessionState emptyHeap))
       (snd (createInitialSessionState emptyHeap)) ''Some days I WANT TO DIE, honestly''))
   \<and> generateTherapistResponse
        \<lparr> LLAMA_API_KEY = Some ''key'', hostname = ''localhost'',
          fetch = (\<lambda>request. HttpResponse True 200 [] (Json (Some [Some ''Hello''])))  \<rparr>
        (fst (createInitialSessionState emptyHeap)) ''Some days I WANT TO DIE, honestly''
        (snd (createInitialSessionState emptyHeap)) []
      = (fst (updateSessionState (fst (createInitialSessionState emptyHeap))
                (snd (createInitialSessionState emptyHeap)) ''Some days I WANT TO DIE, honestly''),
         \<lparr> replyText = crisisResponse,
           updatedState = snd (updateSessionState (fst (createInitialSessionState emptyHeap))
                (snd (createInitialSessionState emptyHeap)) ''Some days I WANT TO DIE, honestly'') \<rparr>,
         [])"
proof -
  have "containsCrisisIndicators ''Some days I WANT TO DIE, honestly''" by code_simp
  then have flagged:
    "crisisDetected (snd (updateSessionState (fst (createInitialSessionState emptyHeap))
       (snd (createInitialSessionState emptyHeap)) ''Some days I WANT TO DIE, honestly''))"
    by (simp only: updateSessionState_crisis)
  show ?thesis
    using flagged
      crisis_reply_bypasses_remote [of "fst (createInitialSessionState emptyHeap)"
        "snd (createInitialSessionState emptyHeap)" "''Some days I WANT TO DIE, honestly''"
        "\<lparr> LLAMA_API_KEY = Some ''key'', hostname = ''localhost'',
          fetch = (\<lambda>request. HttpResponse True 200 [] (Json (Some [Some ''Hello''])))  \<rparr>" "[]"]
    by blast
qed

section \<open>The crisis flag is recomputed on every turn\<close>

text \<open>
  Claim C9. The crisis flag is not latched: for every store and session state, also
  one whose flag is set, and every text in which no crisis keyword occurs (matched
  on the lower-cased text, as \<open>containsCrisisIndicators\<close> does), the state returned by
  \<open>updateSessionState\<close> has the flag cleared.
\<close>

theorem crisis_flag_recomputed:
  assumes "\<forall>k \<in> set crisisKeywords. \<not> str_includes (toLowerCase text) k"
  shows "\<not> crisisDetected (snd (updateSessionState h (s\<lparr> crisisDetected := True \<rparr>) text))
         \<and> \<not> crisisDetected (snd (updateSessionState h s text))"
  using assms
  by (simp add: updateSessionState_crisis containsCrisisIndicators_def list_ex_iff)

theorem crisis_flag_recomputed_witness:
  "crisisDetected (snd (updateSessionState (fst (createInitialSessionState emptyHeap))
       (snd (createInitialSessionState emptyHeap)) ''I want to end my life.''))
   \<and> \<not> crisisDetected (snd (updateSessionState
       (fst (updateSessionState (fst (createInitialSessionState emptyHeap))
              (snd (createInitialSessionState emptyHeap)) ''I want to end my life.''))
       (snd (updateSessionState (fst (createInitialSessionState emptyHeap))
              (snd (createInitialSessionState emptyHeap)) ''I want to end my life.''))
       ''Thanks, I feel a bit better today''))"
proof -
  have none: "\<forall>k \<in> set crisisKeywords. \<not> str_includes (toLowerCase ''Thanks, I feel a bit better today'') k"
    by code_simp
  have "containsCrisisIndicators ''I want to end my life.''" by code_simp
  then have first: "crisisDetected (snd (updateSessionState (fst (createInitialSessionState emptyHeap))
       (snd (createInitialSessionState emptyHeap)) ''I want to end my life.''))"
    by (simp only: updateSessionState_crisis)
  show ?thesis
    using first crisis_flag_recomputed [OF none] by blast
qed


section \<open>Failures of the chat service\<close>

lemma sendLlamaRequest_fulfilled: "\<exists>r. fst (sendLlamaRequest e msgs sp) = Inr r"
  by (cases "sendLlamaRequest_try e msgs sp"; cases "fst (sendLlamaRequest_try e msgs sp)")
     (auto simp: sendLlamaRequest_def)

lemma sendLlamaRequest_no_key:
  "truthy (LLAMA_API_KEY e) = None \<Longrightarrow> sendLlamaRequest e msgs sp = (Inr llamaFallback, [])"
  by (simp add: sendLlamaRequest_def sendLlamaRequest_try_def)

lemma sendLlamaRequest_not_ok:
  assumes "truthy (LLAMA_API_KEY e) = Some key"
    and "fetch e (chatRequest e key msgs sp) = HttpResponse False status errorData body"
  shows "sendLlamaRequest e msgs sp = (Inr llamaFallback, [chatRequest e key msgs sp])"
  using assms by (simp add: sendLlamaRequest_def sendLlamaRequest_try_def Let_def)

lemma sendLlamaRequest_no_choices:
  assumes "truthy (LLAMA_API_KEY e) = Some key"
    and "fetch e (chatRequest e key msgs sp) = HttpResponse True status t (Json choices)"
    and "choices = None \<or> choices = Some []"
  shows "sendLlamaRequest e msgs sp = (Inr llamaFallback, [chatRequest e key msgs sp])"
  using assms by (auto simp: sendLlamaRequest_def sendLlamaRequest_try_def Let_def)

lemma sendLlamaRequest_rejected:
  assumes "truthy (LLAMA_API_KEY e) = Some key"
    and "fetch e (chatRequest e key msgs sp) = FetchRejected"
  shows "sendLlamaRequest e msgs sp = (Inr llamaFallback, [chatRequest e key msgs sp])"
  using assms by (auto simp: sendLlamaRequest_def sendLlamaRequest_try_def Let_def)

lemma generateTherapistResponse_normal:
  assumes "\<not> crisisDetected (snd (updateSessionState h s userInput))"
  shows "\<exists>r sent.
           sendLlamaRequest e
             (map (\<lambda>msg. \<lparr> role = (if msgType msg = entry then user else assistant),
                           content = msgText msg \<rparr>) (sliceLast10 hist)
              @ [\<lparr> role = user, content = userInput \<rparr>])
             (Some createTherapySystemPrompt) = (Inr r, sent)
           \<and> generateTherapistResponse e h userInput s hist =
               (fst (updateSessionState h s userInput),
                \<lparr> replyText = r, updatedState = snd (updateSessionState h s userInput) \<rparr>, sent)"
proof -
  let ?msgs = "map (\<lambda>msg. \<lparr> role = (if msgType msg = entry then user else assistant),
                           content = msgText msg \<rparr>) (sliceLast10 hist)
              @ [\<lparr> role = user, content = userInput \<rparr>]"
  obtain h' st where u: "updateSessionState h s userInput = (h', st)"
    by (cases "updateSessionState h s userInput")
  with assms have nc: "\<not> crisisDetected st" by simp
  obtain r where "fst (sendLlamaRequest e ?msgs (Some createTherapySystemPrompt)) = Inr r"
    using sendLlamaRequest_fulfilled by blast
  then obtain sent where sl: "sendLlamaRequest e ?msgs (Some createTherapySystemPrompt) = (Inr r, sent)"
    by (cases "sendLlamaRequest e ?msgs (Some createTherapySystemPrompt)") auto
  have "generateTherapistResponse e h userInput s hist = (h', \<lparr> replyText = r, updatedState = st \<rparr>, sent)"
    using u nc sl by (simp add: generateTherapistResponse_def Let_def)
  then show ?thesis using sl u by auto
qed

text \<open>
  Claim C10. \<open>sendLlamaRequest\<close> always resolves and never rejects. When the API key is
  missing it resolves to the fixed fallback string without sending a request; when
  the service answers its request with a response that is not ok, or with a body
  whose \<open>choices\<close> are absent or empty, it resolves to the same fallback string. So on
  a turn without crisis \<open>generateTherapistResponse\<close> replies with the text
  \<open>sendLlamaRequest\<close> resolved to: its own \<open>catch\<close> clause is never entered.
\<close>

theorem sendLlamaRequest_never_rejects:
  "(\<exists>r. fst (sendLlamaRequest e msgs sp) = Inr r)
   \<and> (truthy (LLAMA_API_KEY e) = None \<longrightarrow> sendLlamaRequest e msgs sp = (Inr llamaFallback, []))
   \<and> (truthy (LLAMA_API_KEY e) = Some key
        \<and> fetch e (chatRequest e key msgs sp) = HttpResponse False status errorData body
        \<longrightarrow> fst (sendLlamaRequest e msgs sp) = Inr llamaFallback)
   \<and> (truthy (LLAMA_API_KEY e) = Some key
        \<and> fetch e (chatRequest e key msgs sp) = HttpResponse True status errorData (Json choices)
        \<and> (choices = None \<or> choices = Some [])
        \<longrightarrow> fst (sendLlamaRequest e msgs sp) = Inr llamaFallback)
   \<and> llamaFallback = ''I apologize, but I encountered an issue processing your request. Please try again.''
   \<and> (\<not> crisisDetected (snd (updateSessionState h s userInput)) \<longrightarrow>
        (\<exists>r sent.
           sendLlamaRequest e
             (map (\<lambda>msg. \<lparr> role = (if msgType msg = entry then user else assistant),
                           content = msgText msg \<rparr>) (sliceLast10 hist)
              @ [\<lparr> role = user, content = userInput \<rparr>])
             (Some createTherapySystemPrompt) = (Inr r, sent)
           \<and> generateTherapistResponse e h userInput s hist =
               (fst (updateSessionState h s userInput),
                \<lparr> replyText = r, updatedState = snd (updateSessionState h s userInput) \<rparr>, sent)))"
  using sendLlamaRequest_fulfilled [of e msgs sp]
    sendLlamaRequest_no_key [of e msgs sp]
    sendLlamaRequest_not_ok [of e key msgs sp status errorData body]
    sendLlamaRequest_no_choices [of e key msgs sp status errorData choices]
    generateTherapistResponse_normal [of h s userInput e hist]
  by (simp add: llamaFallback_def)

theorem sendLlamaRequest_never_rejects_witness:
  "\<not> crisisDetected (snd (updateSessionState (fst (createInitialSessionState emptyHeap))
       (snd (createInitialSessionState emptyHeap)) ''I had a long day''))
   \<and> truthy (LLAMA_API_KEY \<lparr> LLAMA_API_KEY = None, hostname = ''localhost'',
          fetch = (\<lambda>request. FetchRejected) \<rparr>) = None
   \<and> replyText (fst (snd (generateTherapistResponse
        \<lparr> LLAMA_API_KEY = None, hostname = ''localhost'', fetch = (\<lambda>request. FetchRejected) \<rparr>
        (fst (createInitialSessionState emptyHeap)) ''I had a long day''
        (snd (createInitialSessionState emptyHeap)) []))) = llamaFallback"
proof -
  let ?e = "\<lparr> LLAMA_API_KEY = None, hostname = ''localhost'', fetch = (\<lambda>request. FetchRejected) \<rparr>"
  let ?h = "fst (createInitialSessionState emptyHeap)"
  let ?s = "snd (createInitialSessionState emptyHeap)"
  have "\<not> containsCrisisIndicators ''I had a long day''" by code_simp
  then have calm: "\<not> crisisDetected (snd (updateSessionState ?h ?s ''I had a long day''))"
    unfolding updateSessionState_crisis .
  have nokey: "truthy (LLAMA_API_KEY ?e) = None" by (simp add: truthy_def)
  let ?msgs = "map (\<lambda>msg. \<lparr> role = (if msgType msg = entry then user else assistant),
                           content = msgText msg \<rparr>) (sliceLast10 ([] :: Message list))
              @ [\<lparr> role = user, content = ''I had a long day'' \<rparr>]"
  note T = sendLlamaRequest_never_rejects [of ?e ?msgs "Some createTherapySystemPrompt"
      _ _ _ _ _ ?h ?s "''I had a long day''" "[]"]
  from T nokey have a: "sendLlamaRequest ?e ?msgs (Some createTherapySystemPrompt) = (Inr llamaFallback, [])"
    by blast
  from T calm obtain r sent where
    b: "sendLlamaRequest ?e ?msgs (Some createTherapySystemPrompt) = (Inr r, sent)" and
    c: "generateTherapistResponse ?e ?h ''I had a long day'' ?s [] =
          (fst (updateSessionState ?h ?s ''I had a long day''),
           \<lparr> replyText = r, updatedState = snd (updateSessionState ?h ?s ''I had a long day'') \<rparr>, sent)"
    by blast
  from a b have "r = llamaFallback" by simp
  with c have "replyText (fst (snd (generateTherapistResponse ?e ?h ''I had a long day'' ?s []))) = llamaFallback"
    by simp
  with calm nokey show ?thesis by blast
qed


section \<open>Resource gating\<close>





section \<open>Ranges of the analysis\<close>

lemma foldl_add_fifth_ge:
  "(0::rat) \<le> acc \<Longrightarrow> 0 \<le> foldl (\<lambda>acc w. if P w then acc + 1 / 5 else acc) acc ws"
  by (induction ws arbitrary: acc) auto


lemma emotionIntensity_unit:
  "0 \<le> emotionIntensity lowerText ws \<and> emotionIntensity lowerText ws \<le> 1"
  using foldl_add_fifth_ge [of 0 "str_includes lowerText" ws]
  by (simp add: emotionIntensity_def)

lemma nlp_detectEmotions_unit:
  "(k, v) \<in> set (nlp_detectEmotions text) \<Longrightarrow> 0 \<le> v \<and> v \<le> 1"
  using emotionIntensity_unit by (auto simp: nlp_detectEmotions_def Let_def)




text \<open>
  Claim C6, at its failing inputs. For the empty text, and for texts such as "..."
  and "?!" that contain no word, the sentiment score is 0 but the sentiment magnitude
  is NaN: \<open>analyzeSentiment\<close> divides by the number of words without the guard it has
  on the number of sentiment words.
\<close>

theorem magnitude_without_words:
  "magnitude (sentiment (analyzeText [])) = NaN
   \<and> score (sentiment (analyzeText [])) = 0
   \<and> magnitude (sentiment (analyzeText ''...'')) = NaN
   \<and> magnitude (sentiment (analyzeText ''?!'')) = NaN"
  by code_simp


section \<open>The anxious-about-work turn\<close>

lemma anxious_topics: "extractTopics ''I feel so anxious about work and can't sleep'' = [''work'']"
  by code_simp

lemma anxious_categories: "detectEmotions ''I feel so anxious about work and can't sleep'' = [Neutral]"
  by code_simp

lemma anxious_intensity:
  "map_of (emotions (analyzeText ''I feel so anxious about work and can't sleep'')) ''anxiety'' = Some (1 / 5)"
  by code_simp

lemma updateSessionState_fields:
  "dominantEmotions (snd (updateSessionState h s t)) = detectEmotions t
   \<and> approachUsed (snd (updateSessionState h s t)) = selectApproach (detectEmotions t)
   \<and> recentTopics (snd (updateSessionState h s t)) = take 3 (extractTopics t @ recentTopics s)
   \<and> lastAnalysis (snd (updateSessionState h s t)) = Some (analyzeText t)"
  by (simp add: updateSessionState_def Let_def split: prod.splits)

text \<open>
  Claim C7 as stated fails: from the initial session state, the turn "I feel so
  anxious about work and can't sleep" gives neither a dominant-emotion list that
  includes anxiety nor the approach cbt, mindfulness.
\<close>

theorem anxious_about_work_counterexample:
  "\<not> (''work'' \<in> set (extractTopics ''I feel so anxious about work and can't sleep'')
      \<and> emotionAbove (emotions (analyzeText ''I feel so anxious about work and can't sleep''))
            ''anxiety'' 0
      \<and> Anxiety \<in> set (dominantEmotions (snd (updateSessionState
          (fst (createInitialSessionState emptyHeap)) (snd (createInitialSessionState emptyHeap))
          ''I feel so anxious about work and can't sleep'')))
      \<and> approachUsed (snd (updateSessionState
          (fst (createInitialSessionState emptyHeap)) (snd (createInitialSessionState emptyHeap))
          ''I feel so anxious about work and can't sleep'')) = [cbt, mindfulness])"
  by (simp add: updateSessionState_fields anxious_categories)

text \<open>
  Claim C7, amended. For the input "I feel so anxious about work and can't sleep",
  from every store and session state, one \<open>updateSessionState\<close> step gives: the
  extracted topics include "work" (and so do the recent topics); the analysis kept in
  \<open>lastAnalysis\<close> has anxiety intensity 0.2, which is above 0 (one keyword, "anxious",
  matched); the dominant-emotion list is \<open>neutral\<close> alone, since 0.2 does not exceed
  the threshold 0.4; and \<open>approachUsed\<close> becomes supportive, solution-focused.
\<close>

theorem anxious_about_work:
  "''work'' \<in> set (extractTopics ''I feel so anxious about work and can't sleep'')
   \<and> ''work'' \<in> set (recentTopics (snd (updateSessionState h s ''I feel so anxious about work and can't sleep'')))
   \<and> lastAnalysis (snd (updateSessionState h s ''I feel so anxious about work and can't sleep''))
        = Some (analyzeText ''I feel so anxious about work and can't sleep'')
   \<and> map_of (emotions (analyzeText ''I feel so anxious about work and can't sleep'')) ''anxiety'' = Some (1 / 5)
   \<and> emotionAbove (emotions (analyzeText ''I feel so anxious about work and can't sleep''))
         ''anxiety'' 0
   \<and> dominantEmotions (snd (updateSessionState h s ''I feel so anxious about work and can't sleep'')) = [Neutral]
   \<and> approachUsed (snd (updateSessionState h s ''I feel so anxious about work and can't sleep''))
        = [supportive, solution_focused]"
  by (simp add: updateSessionState_fields anxious_categories anxious_topics anxious_intensity
        selectApproach_def emotionAbove_def)

section \<open>The caller's profile after an update\<close>

text \<open>
  Claim C2, at its failing input. \<open>P\<close> is the profile \<open>createInitialUserProfile\<close>
  returns. After \<open>updateUserProfile(P, A, text)\<close> for the analysis \<open>A\<close> of "I feel so
  anxious about work and can't sleep", what the caller reads through \<open>P\<close> has
  changed: \<open>communicationStyle.verbose\<close> went from 0.5 to 0.41, \<open>interests\<close> from
  empty to work: 0.6, and \<open>learningHistory.topicsDiscussed\<close> from empty to work. The
  spread copies the outer object only; the inner objects are shared and assigned to.
\<close>

theorem updateUserProfile_changes_argument:
  "verbose (styleOf (readProfile (fst (createInitialUserProfile emptyHeap))
                       (snd (createInitialUserProfile emptyHeap)))) = 1 / 2
   \<and> interestsOf (readProfile (fst (createInitialUserProfile emptyHeap))
                       (snd (createInitialUserProfile emptyHeap))) = []
   \<and> topicsDiscussed (historyOf (readProfile (fst (createInitialUserProfile emptyHeap))
                       (snd (createInitialUserProfile emptyHeap)))) = []
   \<and> verbose (styleOf (readProfile
        (fst (updateUserProfile (fst (createInitialUserProfile emptyHeap))
               (snd (createInitialUserProfile emptyHeap))
               (analyzeText ''I feel so anxious about work and can't sleep'')
               ''I feel so anxious about work and can't sleep''))
        (snd (createInitialUserProfile emptyHeap)))) = 41 / 100
   \<and> interestsOf (readProfile
        (fst (updateUserProfile (fst (createInitialUserProfile emptyHeap))
               (snd (createInitialUserProfile emptyHeap))
               (analyzeText ''I feel so anxious about work and can't sleep'')
               ''I feel so anxious about work and can't sleep''))
        (snd (createInitialUserProfile emptyHeap))) = [(''work'', 3 / 5)]
   \<and> topicsDiscussed (historyOf (readProfile
        (fst (updateUserProfile (fst (createInitialUserProfile emptyHeap))
               (snd (createInitialUserProfile emptyHeap))
               (analyzeText ''I feel so anxious about work and can't sleep'')
               ''I feel so anxious about work and can't sleep''))
        (snd (createInitialUserProfile emptyHeap)))) = [''work'']
   \<and> readProfile
        (fst (updateUserProfile (fst (createInitialUserProfile emptyHeap))
               (snd (createInitialUserProfile emptyHeap))
               (analyzeText ''I feel so anxious about work and can't sleep'')
               ''I feel so anxious about work and can't sleep''))
        (snd (createInitialUserProfile emptyHeap))
       \<noteq> readProfile (fst (createInitialUserProfile emptyHeap))
                       (snd (createInitialUserProfile emptyHeap))"
proof -
  let ?h0 = "fst (createInitialUserProfile emptyHeap)"
  let ?P = "snd (createInitialUserProfile emptyHeap)"
  let ?h1 = "fst (updateUserProfile ?h0 ?P
               (analyzeText ''I feel so anxious about work and can't sleep'')
               ''I feel so anxious about work and can't sleep'')"
  have before: "verbose (styleOf (readProfile ?h0 ?P)) = 1 / 2
      \<and> interestsOf (readProfile ?h0 ?P) = []
      \<and> topicsDiscussed (historyOf (readProfile ?h0 ?P)) = []"
    by code_simp
  have after: "verbose (styleOf (readProfile ?h1 ?P)) = 41 / 100
      \<and> interestsOf (readProfile ?h1 ?P) = [(''work'', 3 / 5)]
      \<and> topicsDiscussed (historyOf (readProfile ?h1 ?P)) = [''work'']"
    by code_simp
  have "readProfile ?h1 ?P \<noteq> readProfile ?h0 ?P"
  proof
    assume "readProfile ?h1 ?P = readProfile ?h0 ?P"
    then have "interestsOf (readProfile ?h1 ?P) = interestsOf (readProfile ?h0 ?P)"
      by (rule arg_cong)
    then show False using before after by simp
  qed
  then show ?thesis using before after by blast
qed

section \<open>The profile stays in the unit interval\<close>

lemma weightedAverage3_unit:
  "in_unit x \<Longrightarrow> in_unit y \<Longrightarrow> in_unit (weightedAverage3 x y)"
proof -
  assume x: "in_unit x" and y: "in_unit y"
  have eq: "weightedAverage3 x y = x * (7 / 10) + y * (3 / 10)"
    by (simp add: weightedAverage3_def weightedAverage_def)
  have "0 \<le> x * (7 / 10)" "0 \<le> y * (3 / 10)" "x * (7 / 10) \<le> 7 / 10" "y * (3 / 10) \<le> 3 / 10"
    using x y by (simp_all add: in_unit_def)
  then show ?thesis unfolding eq in_unit_def by linarith
qed

lemma bucket_unit: "in_unit (bucket a b)"
  by (simp add: bucket_def in_unit_def)

lemma dict_in_unit_update:
  "dict_in_unit d \<Longrightarrow> in_unit v \<Longrightarrow> dict_in_unit (AList.update k v d)"
  by (induction d) (auto simp: dict_in_unit_def)

lemma dict_in_unit_lookup:
  "dict_in_unit d \<Longrightarrow> truthyAt d k = Some v \<Longrightarrow> in_unit v"
proof -
  assume d: "dict_in_unit d" and t: "truthyAt d k = Some v"
  from t have "map_of d k = Some v" by (auto simp: truthyAt_def split: option.splits if_splits)
  then have "(k, v) \<in> set d" by (rule map_of_SomeD)
  then show ?thesis using d by (auto simp: dict_in_unit_def list_all_iff)
qed

lemma setDict_unit:
  "profile_in_unit h p \<Longrightarrow> dict_in_unit (dictAt h a) \<Longrightarrow> in_unit v \<Longrightarrow> profile_in_unit (setDict a k v h) p"
  by (auto simp: profile_in_unit_def setDict_def dict_in_unit_update)

lemma setStyle_unit:
  "profile_in_unit h p \<Longrightarrow> style_in_unit (f (styleAt h a)) \<Longrightarrow> profile_in_unit (setStyle a f h) p"
  by (auto simp: profile_in_unit_def setStyle_def)

lemma setTraits_unit:
  "profile_in_unit h p \<Longrightarrow> traits_in_unit (f (traitsAt h a)) \<Longrightarrow> profile_in_unit (setTraits a f h) p"
  by (auto simp: profile_in_unit_def setTraits_def)

lemma setHistory_unit:
  "profile_in_unit h p \<Longrightarrow> profile_in_unit (setHistory a f h) p"
  by (auto simp: profile_in_unit_def setHistory_def)

lemma updateInterest_unit:
  assumes "profile_in_unit h p"
  shows "profile_in_unit (updateInterest p h topic) p"
proof -
  have d: "dict_in_unit (dictAt h (interests p))" using assms by (simp add: profile_in_unit_def)
  show ?thesis
  proof (cases "truthyAt (dictAt h (interests p)) topic")
    case None
    have "in_unit (3 / 5)" by (simp add: in_unit_def)
    then show ?thesis using None assms d by (simp add: updateInterest_def setDict_unit)
  next
    case (Some v)
    then have "in_unit v" using d dict_in_unit_lookup by blast
    moreover have "in_unit (4 / 5)" by (simp add: in_unit_def)
    ultimately have "in_unit (weightedAverage3 v (4 / 5))" by (rule weightedAverage3_unit)
    then show ?thesis using Some assms d by (simp add: updateInterest_def setDict_unit)
  qed
qed

lemma updateConcern_unit:
  assumes "profile_in_unit h p" and "in_unit (snd ent)"
  shows "profile_in_unit (updateConcern p h ent) p"
proof -
  have d: "dict_in_unit (dictAt h (concerns p))" using assms by (simp add: profile_in_unit_def)
  show ?thesis
  proof (cases "snd ent > 1 / 2 \<and> fst ent \<in> set concernEmotions")
    case False
    then show ?thesis using assms by (auto simp: updateConcern_def Let_def)
  next
    case True
    show ?thesis
    proof (cases "truthyAt (dictAt h (concerns p)) (fst ent)")
      case None
      then show ?thesis using True assms d by (simp add: updateConcern_def Let_def setDict_unit)
    next
      case (Some v)
      then have "in_unit v" using d dict_in_unit_lookup by blast
      then have "in_unit (weightedAverage3 v (snd ent))"
        using assms(2) by (rule weightedAverage3_unit)
      then show ?thesis using Some True assms d by (simp add: updateConcern_def Let_def setDict_unit)
    qed
  qed
qed

lemma noteTopic_unit:
  "profile_in_unit h p \<Longrightarrow> profile_in_unit (noteTopic p h topic) p"
  by (simp add: noteTopic_def setHistory_unit)

lemma foldl_updateInterest_unit:
  "profile_in_unit h p \<Longrightarrow> profile_in_unit (foldl (updateInterest p) h ts) p"
  by (induction ts arbitrary: h) (simp_all add: updateInterest_unit)

lemma foldl_updateConcern_unit:
  "profile_in_unit h p \<Longrightarrow> \<forall>ent \<in> set es. in_unit (snd ent)
     \<Longrightarrow> profile_in_unit (foldl (updateConcern p) h es) p"
  by (induction es arbitrary: h) (simp_all add: updateConcern_unit)

lemma foldl_noteTopic_unit:
  "profile_in_unit h p \<Longrightarrow> profile_in_unit (foldl (noteTopic p) h ts) p"
  by (induction ts arbitrary: h) (simp_all add: noteTopic_unit)

lemma style_in_unit_fields:
  "style_in_unit c \<Longrightarrow> in_unit x \<Longrightarrow>
     style_in_unit (c\<lparr> verbose := x \<rparr>) \<and> style_in_unit (c\<lparr> emotional := x \<rparr>)
     \<and> style_in_unit (c\<lparr> analytical := x \<rparr>)"
  by (simp add: style_in_unit_def)

lemma traits_in_unit_fields:
  "traits_in_unit c \<Longrightarrow> in_unit x \<Longrightarrow>
     traits_in_unit (c\<lparr> extraversion := x \<rparr>) \<and> traits_in_unit (c\<lparr> agreeableness := x \<rparr>)
     \<and> traits_in_unit (c\<lparr> openness := x \<rparr>)"
  by (simp add: traits_in_unit_def)

lemma blend_style_unit:
  assumes "profile_in_unit h p" and "in_unit target"
  shows "profile_in_unit (setStyle (communicationStyle p)
            (\<lambda>c. c\<lparr> verbose := weightedAverage3 (verbose (styleAt h (communicationStyle p))) target \<rparr>) h) p"
    and "profile_in_unit (setStyle (communicationStyle p)
            (\<lambda>c. c\<lparr> emotional := weightedAverage3 (emotional (styleAt h (communicationStyle p))) target \<rparr>) h) p"
    and "profile_in_unit (setStyle (communicationStyle p)
            (\<lambda>c. c\<lparr> analytical := weightedAverage3 (analytical (styleAt h (communicationStyle p))) target \<rparr>) h) p"
proof -
  have c: "style_in_unit (styleAt h (communicationStyle p))"
    using assms(1) by (simp add: profile_in_unit_def)
  then have "in_unit (verbose (styleAt h (communicationStyle p)))"
    "in_unit (emotional (styleAt h (communicationStyle p)))"
    "in_unit (analytical (styleAt h (communicationStyle p)))"
    by (simp_all add: style_in_unit_def)
  then have w: "in_unit (weightedAverage3 (verbose (styleAt h (communicationStyle p))) target)"
    "in_unit (weightedAverage3 (emotional (styleAt h (communicationStyle p))) target)"
    "in_unit (weightedAverage3 (analytical (styleAt h (communicationStyle p))) target)"
    using assms(2) by (simp_all add: weightedAverage3_unit)
  show "profile_in_unit (setStyle (communicationStyle p)
            (\<lambda>c. c\<lparr> verbose := weightedAverage3 (verbose (styleAt h (communicationStyle p))) target \<rparr>) h) p"
    using assms(1) c w(1) by (simp add: setStyle_unit style_in_unit_fields)
  show "profile_in_unit (setStyle (communicationStyle p)
            (\<lambda>c. c\<lparr> emotional := weightedAverage3 (emotional (styleAt h (communicationStyle p))) target \<rparr>) h) p"
    using assms(1) c w(2) by (simp add: setStyle_unit style_in_unit_fields)
  show "profile_in_unit (setStyle (communicationStyle p)
            (\<lambda>c. c\<lparr> analytical := weightedAverage3 (analytical (styleAt h (communicationStyle p))) target \<rparr>) h) p"
    using assms(1) c w(3) by (simp add: setStyle_unit style_in_unit_fields)
qed

lemma blend_traits_unit:
  assumes "profile_in_unit h p" and "in_unit target"
  shows "profile_in_unit (setTraits (personalityTraits p)
            (\<lambda>t. t\<lparr> extraversion := weightedAverage3 (extraversion t) target \<rparr>) h) p"
    and "profile_in_unit (setTraits (personalityTraits p)
            (\<lambda>t. t\<lparr> agreeableness := weightedAverage3 (agreeableness t) target \<rparr>) h) p"
    and "profile_in_unit (setTraits (personalityTraits p)
            (\<lambda>t. t\<lparr> openness := weightedAverage3 (openness t) target \<rparr>) h) p"
proof -
  have c: "traits_in_unit (traitsAt h (personalityTraits p))"
    using assms(1) by (simp add: profile_in_unit_def)
  then have "in_unit (extraversion (traitsAt h (personalityTraits p)))"
    "in_unit (agreeableness (traitsAt h (personalityTraits p)))"
    "in_unit (openness (traitsAt h (personalityTraits p)))"
    by (simp_all add: traits_in_unit_def)
  then have w: "in_unit (weightedAverage3 (extraversion (traitsAt h (personalityTraits p))) target)"
    "in_unit (weightedAverage3 (agreeableness (traitsAt h (personalityTraits p))) target)"
    "in_unit (weightedAverage3 (openness (traitsAt h (personalityTraits p))) target)"
    using assms(2) by (simp_all add: weightedAverage3_unit)
  show "profile_in_unit (setTraits (personalityTraits p)
            (\<lambda>t. t\<lparr> extraversion := weightedAverage3 (extraversion t) target \<rparr>) h) p"
    using assms(1) c w(1) by (simp add: setTraits_unit traits_in_unit_fields)
  show "profile_in_unit (setTraits (personalityTraits p)
            (\<lambda>t. t\<lparr> agreeableness := weightedAverage3 (agreeableness t) target \<rparr>) h) p"
    using assms(1) c w(2) by (simp add: setTraits_unit traits_in_unit_fields)
  show "profile_in_unit (setTraits (personalityTraits p)
            (\<lambda>t. t\<lparr> openness := weightedAverage3 (openness t) target \<rparr>) h) p"
    using assms(1) c w(3) by (simp add: setTraits_unit traits_in_unit_fields)
qed

lemma updateUserProfile_unit_general:
  assumes inv: "profile_in_unit h p"
    and es: "\<forall>ent \<in> set (emotions a). in_unit (snd ent)"
  shows "profile_in_unit (fst (updateUserProfile h p a userText)) (snd (updateUserProfile h p a userText))"
proof -
  define h1 where "h1 = setStyle (communicationStyle p)
                 (\<lambda>s. s\<lparr> verbose := weightedAverage3
                            (verbose (styleAt h (communicationStyle p)))
                            (bucket (tokenCount a > 100) (tokenCount a > 50)) \<rparr>) h"
  define h2 where "h2 = setStyle (communicationStyle p)
                 (\<lambda>s. s\<lparr> emotional := weightedAverage3
                            (emotional (styleAt h1 (communicationStyle p)))
                            (bucket (js_gt (magnitude (sentiment a)) (7 / 10))
                                    (js_gt (magnitude (sentiment a)) (3 / 10))) \<rparr>) h1"
  define h3 where "h3 = setStyle (communicationStyle p)
                 (\<lambda>s. s\<lparr> analytical := weightedAverage3
                            (analytical (styleAt h2 (communicationStyle p)))
                            (bucket (complexity a > 7 / 10) (complexity a > 2 / 5)) \<rparr>) h2"
  define h4 where "h4 = foldl (updateInterest p) h3 (topics a)"
  define h5 where "h5 = foldl (updateConcern p) h4 (emotions a)"
  define h6 where "h6 = (if score (sentiment a) > 1 / 2
                then setTraits (personalityTraits p)
                       (\<lambda>t. t\<lparr> agreeableness := weightedAverage3 (agreeableness t) (3 / 5) \<rparr>)
                       (setTraits (personalityTraits p)
                          (\<lambda>t. t\<lparr> extraversion := weightedAverage3 (extraversion t) (3 / 5) \<rparr>) h5)
                else h5)"
  define h7 where "h7 = (if complexity a > 3 / 5
                then setTraits (personalityTraits p)
                       (\<lambda>t. t\<lparr> openness := weightedAverage3 (openness t) (7 / 10) \<rparr>) h6
                else h6)"
  define h8 where "h8 = foldl (noteTopic p) h7 (topics a)"
  have res: "updateUserProfile h p a userText = (h8, p)"
    by (simp add: updateUserProfile_def Let_def h1_def h2_def h3_def h4_def h5_def h6_def h7_def h8_def)
  have i1: "profile_in_unit h1 p" unfolding h1_def using inv bucket_unit by (rule blend_style_unit(1))
  have i2: "profile_in_unit h2 p" unfolding h2_def using i1 bucket_unit by (rule blend_style_unit(2))
  have i3: "profile_in_unit h3 p" unfolding h3_def using i2 bucket_unit by (rule blend_style_unit(3))
  have i4: "profile_in_unit h4 p" unfolding h4_def using i3 by (rule foldl_updateInterest_unit)
  have i5: "profile_in_unit h5 p" unfolding h5_def using i4 es by (rule foldl_updateConcern_unit)
  have u35: "in_unit (3 / 5)" and u710: "in_unit (7 / 10)" by (simp_all add: in_unit_def)
  have i6: "profile_in_unit h6 p"
    unfolding h6_def using i5 u35 by (simp add: blend_traits_unit)
  have i7: "profile_in_unit h7 p"
    unfolding h7_def using i6 u710 by (simp add: blend_traits_unit)
  have i8: "profile_in_unit h8 p" unfolding h8_def using i7 by (rule foldl_noteTopic_unit)
  show ?thesis using i8 res by simp
qed

lemma analyzeText_emotions_unit:
  "\<forall>ent \<in> set (emotions (analyzeText t)). in_unit (snd ent)"
  using nlp_detectEmotions_unit [of _ _ t]
  by (auto simp: analyzeText_def Let_def in_unit_def)

text \<open>
  Claim C4. If the personality traits, the communication style, the interests and
  the concerns of a profile all lie in [0, 1], then for the analysis \<open>analyzeText\<close>
  gives of any text they lie in [0, 1] again in the profile \<open>updateUserProfile\<close>
  returns: every assignment stores a seed in [0, 1] or the blend
  \<open>0.7 * current + 0.3 * target\<close> of two numbers in [0, 1].
\<close>

theorem updateUserProfile_keeps_unit_interval:
  assumes "profile_in_unit h P"
    and "updateUserProfile h P (analyzeText t) userText = (h', P')"
  shows "profile_in_unit h' P'"
  using updateUserProfile_unit_general [OF assms(1) analyzeText_emotions_unit, of t userText] assms(2)
  by simp

theorem updateUserProfile_keeps_unit_interval_witness:
  "profile_in_unit (fst (createInitialUserProfile emptyHeap)) (snd (createInitialUserProfile emptyHeap))
   \<and> profile_in_unit
        (fst (updateUserProfile (fst (createInitialUserProfile emptyHeap))
               (snd (createInitialUserProfile emptyHeap))
               (analyzeText ''I am anxious, nervous, stressed and afraid about my job'')
               ''I am anxious, nervous, stressed and afraid about my job''))
        (snd (updateUserProfile (fst (createInitialUserProfile emptyHeap))
               (snd (createInitialUserProfile emptyHeap))
               (analyzeText ''I am anxious, nervous, stressed and afraid about my job'')
               ''I am anxious, nervous, stressed and afraid about my job''))
   \<and> concernsOf (readProfile
        (fst (updateUserProfile (fst (createInitialUserProfile emptyHeap))
               (snd (createInitialUserProfile emptyHeap))
               (analyzeText ''I am anxious, nervous, stressed and afraid about my job'')
               ''I am anxious, nervous, stressed and afraid about my job''))
        (snd (createInitialUserProfile emptyHeap))) = [(''anxiety'', 4 / 5)]"
proof -
  let ?h0 = "fst (createInitialUserProfile emptyHeap)"
  let ?P = "snd (createInitialUserProfile emptyHeap)"
  let ?u = "updateUserProfile ?h0 ?P
               (analyzeText ''I am anxious, nervous, stressed and afraid about my job'')
               ''I am anxious, nervous, stressed and afraid about my job''"
  have start: "profile_in_unit ?h0 ?P" by code_simp
  have run: "?u = (fst ?u, snd ?u)" by simp
  have seeded: "concernsOf (readProfile (fst ?u) ?P) = [(''anxiety'', 4 / 5)]" by code_simp
  show ?thesis
    using start seeded updateUserProfile_keeps_unit_interval [OF start run] by blast
qed


end
